theory Spec2Isabelle
  imports Complex_Main
begin

section \<open>Dates and the wall clock\<close>

text \<open>
  The pages read the wall clock with \<^verbatim>\<open>new Date()\<close> and take it apart with
  \<^verbatim>\<open>getHours\<close>, \<^verbatim>\<open>getMinutes\<close>, \<^verbatim>\<open>getDay\<close> and \<^verbatim>\<open>getTime\<close>. A date is its time
  value: the milliseconds since 1970-01-01T00:00Z, an integer. The getters follow
  ECMAScript: they work on the local time of the date. The local time zone is the
  function \<open>LocalTZA(t, isUTC)\<close> of ECMAScript, a parameter of the model: for a time
  value \<open>t\<close> it gives the offset in milliseconds in force at that instant
  (\<open>isUTC\<close> true), and for a local time the offset under which that local time is read
  (\<open>isUTC\<close> false). Within one call of a page function every \<^verbatim>\<open>new Date()\<close> is taken
  to give the same time value \<open>now\<close>.
\<close>

type_synonym time_zone = "int \<Rightarrow> bool \<Rightarrow> int"

definition msPerMinute :: int where
  "msPerMinute = 60000"

definition msPerHour :: int where
  "msPerHour = 3600000"

definition msPerDay :: int where
  "msPerDay = 86400000"

definition LocalTime :: "time_zone \<Rightarrow> int \<Rightarrow> int" where
  "LocalTime tza t = t + tza t True"

definition Day :: "int \<Rightarrow> int" where
  "Day t = t div msPerDay"

definition TimeWithinDay :: "int \<Rightarrow> int" where
  "TimeWithinDay t = t mod msPerDay"

definition WeekDay :: "int \<Rightarrow> int" where
  "WeekDay t = (Day t + 4) mod 7"

definition HourFromTime :: "int \<Rightarrow> int" where
  "HourFromTime t = (t div msPerHour) mod 24"

definition MinFromTime :: "int \<Rightarrow> int" where
  "MinFromTime t = (t div msPerMinute) mod 60"

definition getTime :: "int \<Rightarrow> int" where
  "getTime t = t"

definition getDay :: "time_zone \<Rightarrow> int \<Rightarrow> int" where
  "getDay tza t = WeekDay (LocalTime tza t)"

definition getHours :: "time_zone \<Rightarrow> int \<Rightarrow> int" where
  "getHours tza t = HourFromTime (LocalTime tza t)"

definition getMinutes :: "time_zone \<Rightarrow> int \<Rightarrow> int" where
  "getMinutes tza t = MinFromTime (LocalTime tza t)"

text \<open>\<^verbatim>\<open>now.getHours() * 60 + now.getMinutes()\<close>, the minutes since local midnight.\<close>

definition currentMinutes :: "time_zone \<Rightarrow> int \<Rightarrow> int" where
  "currentMinutes tza now = getHours tza now * 60 + getMinutes tza now"

subsection \<open>Example time zones\<close>

text \<open>A zone whose local time is UTC.\<close>

definition utc_zone :: time_zone where
  "utc_zone t isUTC = 0"

text \<open>
  America/Santiago around Sunday 6 September 2026: the offset is -4 h until the instant
  04:00Z of that day (\<open>1788667200000\<close>) and -3 h from then on, so the local clock goes
  from Saturday 24:00 to Sunday 01:00 and the local times from 00:00 to 01:00 of that
  Sunday do not exist. A skipped local time is read with the offset before the change.
\<close>

definition santiago :: time_zone where
  "santiago t isUTC =
     (if isUTC then (if t < 1788667200000 then - 14400000 else - 10800000)
      else (if t < 1788667200000 - 10800000 then - 14400000 else - 10800000))"

text \<open>
  America/New_York around Sunday 1 November 2026: the offset is -4 h until the instant
  06:00Z of that day (\<open>1793512800000\<close>) and -5 h from then on, so the local hour from
  01:00 to 02:00 of that Sunday comes twice. A repeated local time is read with the
  offset before the change.
\<close>

definition new_york :: time_zone where
  "new_york t isUTC =
     (if isUTC then (if t < 1793512800000 then - 14400000 else - 18000000)
      else (if t < 1793512800000 - 14400000 then - 14400000 else - 18000000))"

section \<open>Lessons\<close>

text \<open>
  A lesson as the student pages receive it from the API. \<open>createdAt\<close> is a date string:
  \<open>None\<close> when the field is absent (or the empty string, which is falsy as well),
  otherwise what \<^verbatim>\<open>new Date(lesson.createdAt)\<close> makes of it. \<open>attendance\<close> is the
  student's own attendance record for the lesson, when there is one.
\<close>

datatype js_date = InvalidDate | ValidDate int

record attendance_record =
  markedAtTime :: "string option"

record lesson =
  lesson_id :: int
  dayOfWeek :: int
  startTimeMinutes :: int
  durationMinutes :: int
  attendanceWindowMinutes :: "int option"
  createdAt :: "js_date option"
  attendance :: "attendance_record option"

text \<open>
  \<^verbatim>\<open>lesson.attendanceWindowMinutes || d\<close>: the operator \<^verbatim>\<open>||\<close> gives its right operand
  when the left one is falsy, and the number \<open>0\<close> is falsy like an absent field.
\<close>

fun or_default :: "int option \<Rightarrow> int \<Rightarrow> int" where
  "or_default None d = d"
| "or_default (Some w) d = (if w = 0 then d else w)"

subsection \<open>Student dashboard\<close>

text \<open>
  \<^verbatim>\<open>lesson.createdAt && (new Date().getTime() - new Date(lesson.createdAt).getTime()
  < 24 * 60 * 60 * 1000)\<close>. The time value of an invalid date is NaN, and a comparison
  with NaN is false.
\<close>

fun isInstantLesson :: "int \<Rightarrow> lesson \<Rightarrow> bool" where
  "isInstantLesson now l =
     (case createdAt l of
        None \<Rightarrow> False
      | Some InvalidDate \<Rightarrow> False
      | Some (ValidDate c) \<Rightarrow> getTime now - getTime c < 24 * 60 * 60 * 1000)"

text \<open>
  The instant branch reads \<^verbatim>\<open>lessonCreationTime.getHours() * 60 +
  lessonCreationTime.getMinutes()\<close>, the local time of the creation date under the
  offset that was in force when the lesson was created; it is reached with a valid
  creation date only.
\<close>

fun creationTimeMinutes :: "time_zone \<Rightarrow> lesson \<Rightarrow> int" where
  "creationTimeMinutes tza l =
     (case createdAt l of
        Some (ValidDate c) \<Rightarrow> getHours tza c * 60 + getMinutes tza c
      | _ \<Rightarrow> 0)"

fun isAttendanceWindowOpen :: "time_zone \<Rightarrow> int \<Rightarrow> lesson option \<Rightarrow> bool" where
  "isAttendanceWindowOpen tza now None = False"
| "isAttendanceWindowOpen tza now (Some l) =
     (if dayOfWeek l \<noteq> getDay tza now then False
      else if isInstantLesson now l then
        (let endFromStartTime = startTimeMinutes l + or_default (attendanceWindowMinutes l) 30;
             endFromCreationTime =
               creationTimeMinutes tza l + or_default (attendanceWindowMinutes l) 30;
             attendanceWindowEndMinutes = max endFromStartTime endFromCreationTime
         in currentMinutes tza now \<le> attendanceWindowEndMinutes)
      else
        (let isAfterStart = currentMinutes tza now \<ge> startTimeMinutes l;
             attendanceWindowEndMinutes =
               startTimeMinutes l + or_default (attendanceWindowMinutes l) 30;
             isBeforeWindowEnd = currentMinutes tza now \<le> attendanceWindowEndMinutes
         in isAfterStart \<and> isBeforeWindowEnd))"

subsection \<open>Student lessons page\<close>

fun isLessonInFuture :: "time_zone \<Rightarrow> int \<Rightarrow> lesson \<Rightarrow> bool" where
  "isLessonInFuture tza now l =
     (if dayOfWeek l > getDay tza now then True
      else if dayOfWeek l = getDay tza now \<and> startTimeMinutes l > currentMinutes tza now
      then True
      else False)"

fun isLessonInPast :: "time_zone \<Rightarrow> int \<Rightarrow> lesson \<Rightarrow> bool" where
  "isLessonInPast tza now l =
     (if dayOfWeek l < getDay tza now then True
      else if dayOfWeek l = getDay tza now
              \<and> startTimeMinutes l + durationMinutes l < currentMinutes tza now
      then True
      else False)"

fun canMarkAttendance :: "time_zone \<Rightarrow> int \<Rightarrow> lesson option \<Rightarrow> bool" where
  "canMarkAttendance tza now None = False"
| "canMarkAttendance tza now (Some l) =
     (if dayOfWeek l \<noteq> getDay tza now then False
      else
        (let isStarted = startTimeMinutes l \<le> currentMinutes tza now;
             attendanceWindowEndMinutes =
               startTimeMinutes l + or_default (attendanceWindowMinutes l) 15;
             isBeforeWindowEnd = currentMinutes tza now \<le> attendanceWindowEndMinutes;
             isNotMarked = (attendance l = None)
         in isStarted \<and> isBeforeWindowEnd \<and> isNotMarked))"

text \<open>\<^verbatim>\<open>hasTimePassed(timeMinutes)\<close> of the same page.\<close>

definition hasTimePassed :: "time_zone \<Rightarrow> int \<Rightarrow> int \<Rightarrow> bool" where
  "hasTimePassed tza now timeMinutes = (currentMinutes tza now > timeMinutes)"

text \<open>
  What the footer of a lesson card on the "today" tab shows: the chain of conditionals in
  the \<^verbatim>\<open>CardFooter\<close>. Only the first alternative carries a button that opens the
  attendance dialog; the buttons of the second and third are disabled.
\<close>

datatype card_footer = MarkPresentButton | AlreadyMarked | Missed | NotYetOpen

fun cardFooter :: "time_zone \<Rightarrow> int \<Rightarrow> lesson \<Rightarrow> card_footer" where
  "cardFooter tza now l =
     (if canMarkAttendance tza now (Some l) then MarkPresentButton
      else if attendance l \<noteq> None then AlreadyMarked
      else if hasTimePassed tza now (startTimeMinutes l + durationMinutes l) then Missed
      else NotYetOpen)"

subsection \<open>Example lessons\<close>

text \<open>
  Thursday 1 January 1970 in the zone \<open>utc_zone\<close>: the time value \<open>36600000\<close> is 10:10
  and \<open>33000000\<close> is 09:10 of that day, whose day of week is \<open>4\<close>.
\<close>

definition lesson_zero_window :: lesson where
  "lesson_zero_window =
     \<lparr>lesson_id = 1, dayOfWeek = 4, startTimeMinutes = 600, durationMinutes = 60,
      attendanceWindowMinutes = Some 0, createdAt = None, attendance = None\<rparr>"

definition lesson_plain :: lesson where
  "lesson_plain =
     \<lparr>lesson_id = 2, dayOfWeek = 4, startTimeMinutes = 600, durationMinutes = 60,
      attendanceWindowMinutes = Some 20, createdAt = None, attendance = None\<rparr>"

definition lesson_no_window :: lesson where
  "lesson_no_window =
     \<lparr>lesson_id = 3, dayOfWeek = 4, startTimeMinutes = 585, durationMinutes = 60,
      attendanceWindowMinutes = None, createdAt = None, attendance = None\<rparr>"

definition lesson_marked :: lesson where
  "lesson_marked =
     \<lparr>lesson_id = 4, dayOfWeek = 4, startTimeMinutes = 600, durationMinutes = 60,
      attendanceWindowMinutes = Some 20, createdAt = None,
      attendance = Some \<lparr>markedAtTime = Some ''10:02''\<rparr>\<rparr>"

definition lesson_instant :: lesson where
  "lesson_instant =
     \<lparr>lesson_id = 5, dayOfWeek = 4, startTimeMinutes = 600, durationMinutes = 60,
      attendanceWindowMinutes = None, createdAt = Some (ValidDate 32400000),
      attendance = None\<rparr>"

definition lesson_monday :: lesson where
  "lesson_monday =
     \<lparr>lesson_id = 6, dayOfWeek = 1, startTimeMinutes = 600, durationMinutes = 60,
      attendanceWindowMinutes = Some 20, createdAt = None, attendance = None\<rparr>"

definition lesson_saturday :: lesson where
  "lesson_saturday =
     \<lparr>lesson_id = 7, dayOfWeek = 6, startTimeMinutes = 600, durationMinutes = 60,
      attendanceWindowMinutes = Some 20, createdAt = None, attendance = None\<rparr>"

definition lesson_sunday :: lesson where
  "lesson_sunday =
     \<lparr>lesson_id = 8, dayOfWeek = 0, startTimeMinutes = 600, durationMinutes = 60,
      attendanceWindowMinutes = Some 20, createdAt = None, attendance = None\<rparr>"

text \<open>
  An instant lesson of Sunday 1 November 2026 in New York that starts at 00:30 and was
  created at 01:30 before the clocks went back (05:30Z, \<open>1793511000000\<close>); one hour
  later (06:30Z, \<open>1793514600000\<close>) the local time is 01:30 again.
\<close>

definition lesson_instant_new_york :: lesson where
  "lesson_instant_new_york =
     \<lparr>lesson_id = 9, dayOfWeek = 0, startTimeMinutes = 30, durationMinutes = 60,
      attendanceWindowMinutes = None, createdAt = Some (ValidDate 1793511000000),
      attendance = None\<rparr>"

subsection \<open>The eligibility rule in the words of the specification\<close>

text \<open>
  A regular lesson: one whose \<open>createdAt\<close> is absent or at least 24 hours before now.
\<close>

definition regular_lesson :: "int \<Rightarrow> lesson \<Rightarrow> bool" where
  "regular_lesson now l =
     (case createdAt l of
        None \<Rightarrow> True
      | Some InvalidDate \<Rightarrow> False
      | Some (ValidDate c) \<Rightarrow> now - c \<ge> 24 * 60 * 60 * 1000)"

text \<open>The window length, defaulting to 30 when the field is absent.\<close>

definition window_or_30_when_absent :: "lesson \<Rightarrow> int" where
  "window_or_30_when_absent l =
     (case attendanceWindowMinutes l of None \<Rightarrow> 30 | Some w \<Rightarrow> w)"

text \<open>
  Now is within the closed interval \<open>[lessonStart, lessonStart + windowMinutes]\<close> of a
  lesson of today.
\<close>

definition within_window_as_specified :: "time_zone \<Rightarrow> int \<Rightarrow> lesson \<Rightarrow> bool" where
  "within_window_as_specified tza now l =
     (dayOfWeek l = getDay tza now
      \<and> startTimeMinutes l \<le> currentMinutes tza now
      \<and> currentMinutes tza now \<le> startTimeMinutes l + window_or_30_when_absent l)"

section \<open>Attendance requests\<close>

datatype attendance_status = present | absent

text \<open>
  The JSON body \<^verbatim>\<open>{ lessonId, studentId, status }\<close> of a POST to the attendance
  endpoint. A field whose value is \<^verbatim>\<open>undefined\<close> is \<open>None\<close>.
\<close>

record attendance_body =
  lessonId :: int
  studentId :: "int option"
  status :: "attendance_status option"

record http_request =
  http_method :: string
  url :: string
  body :: attendance_body

subsection \<open>Student lessons page: self-marking\<close>

text \<open>
  The request of \<^verbatim>\<open>markAttendanceMutation\<close> of the student lessons page, for the
  logged-in user's id (\<^verbatim>\<open>user?.id\<close>) and \<^verbatim>\<open>data.lessonId\<close>; the page always passes
  the status \<^verbatim>\<open>"present"\<close>.
\<close>

definition studentMarkAttendanceRequest :: "int option \<Rightarrow> int \<Rightarrow> http_request" where
  "studentMarkAttendanceRequest userId dataLessonId =
     \<lparr>http_method = ''POST'', url = ''/api/attendance'',
      body = \<lparr>lessonId = dataLessonId, studentId = userId, status = Some present\<rparr>\<rparr>"

subsection \<open>Bulk attendance page\<close>

text \<open>
  The state of the page that \<^verbatim>\<open>saveAllAttendance\<close> reads. \<open>lessonId_state\<close> is \<open>None\<close>
  for \<^verbatim>\<open>null\<close> (and for the NaN that \<^verbatim>\<open>parseInt\<close> gives on a malformed query
  parameter). \<open>attendanceData\<close> is the object from student ids to statuses, as an
  association list read with \<^const>\<open>map_of\<close>. The state stays as it is while one save runs.
\<close>

record bulk_state =
  lessonId_state :: "int option"
  attendanceData :: "(nat \<times> attendance_status) list"
  forceAttendance :: bool

text \<open>
  \<^verbatim>\<open>Object.keys\<close> lists the keys of an object that are array indices in ascending
  order; \<^verbatim>\<open>parseInt\<close> turns each back into the number.
\<close>

definition Object_keys :: "(nat \<times> 'v) list \<Rightarrow> nat list" where
  "Object_keys obj = sort (remdups (map fst obj))"

text \<open>
  \<^verbatim>\<open>apiRequest\<close> is imported from the query client. What one call of it does is a
  parameter of the model: a function from the state of the world outside the page and
  the request to the result and the next state. The result is: the call throws; it
  returns a response whose \<^verbatim>\<open>ok\<close> is false (with the \<^verbatim>\<open>message\<close> read from its
  body); it returns an ok response whose body parses; or an ok response whose body does
  not parse (with the message of that failure).
\<close>

datatype api_result = Threw string | NotOkResponse string | OkResponse | OkUnreadable string

datatype toast_variant = default_variant | destructive

text \<open>
  \<open>SavedSummary successful failed\<close> stands for the text \<^verbatim>\<open>Successfully marked
  ${successful} students\<close>, followed by \<^verbatim>\<open>, failed for ${failed} students\<close> when
  \<open>failed > 0\<close>.
\<close>

datatype toast_description = Text string | SavedSummary nat nat

record toast_message =
  title :: string
  description :: toast_description
  variant :: toast_variant

text \<open>What a run does, in the order in which it does it.\<close>

datatype event =
    MutateAsync nat "attendance_status option"
  | Post http_request
  | Settled api_result
  | Delay nat
  | ConsoleError string
  | Toast toast_message
  | InvalidateQueries
  | RefetchAttendance
  | SetIsSaving bool

text \<open>\<^verbatim>\<open>error.message || "Failed to mark attendance"\<close>: the empty string is falsy.\<close>

definition or_text :: "string \<Rightarrow> string \<Rightarrow> string" where
  "or_text m d = (if m = [] then d else m)"

text \<open>
  \<^verbatim>\<open>mutationFn\<close> of \<^verbatim>\<open>markAttendanceMutation\<close>: the guard on \<^verbatim>\<open>lessonId\<close> (falsy
  for \<^verbatim>\<open>null\<close> and for \<open>0\<close>) throws before anything is sent. Every failure inside the
  \<^verbatim>\<open>try\<close> is logged and thrown again with its message.
\<close>

fun mutationFn ::
  "('s \<Rightarrow> http_request \<Rightarrow> api_result \<times> 's) \<Rightarrow> bulk_state \<Rightarrow> 's \<Rightarrow> nat
     \<Rightarrow> attendance_status option \<Rightarrow> (string + unit) \<times> event list \<times> 's" where
  "mutationFn apiRequest st s sid stat =
     (case lessonId_state st of
        None \<Rightarrow> (Inl ''No lesson selected'', [], s)
      | Some lid \<Rightarrow>
          if lid = 0 then (Inl ''No lesson selected'', [], s)
          else
            (let req = \<lparr>http_method = ''POST'',
                        url = (if forceAttendance st then ''/api/attendance?force=true''
                               else ''/api/attendance''),
                        body = \<lparr>lessonId = lid, studentId = Some (int sid), status = stat\<rparr>\<rparr>
             in case apiRequest s req of
                  (OkResponse, s') \<Rightarrow> (Inr (), [Post req, Settled OkResponse], s')
                | (Threw m, s') \<Rightarrow>
                    (Inl (or_text m ''Failed to mark attendance''),
                     [Post req, Settled (Threw m), ConsoleError ''Error marking attendance:''],
                     s')
                | (NotOkResponse m, s') \<Rightarrow>
                    (Inl (or_text (or_text m ''Failed to mark attendance'')
                            ''Failed to mark attendance''),
                     [Post req, Settled (NotOkResponse m),
                      ConsoleError ''Error marking attendance:''],
                     s')
                | (OkUnreadable m, s') \<Rightarrow>
                    (Inl (or_text m ''Failed to mark attendance''),
                     [Post req, Settled (OkUnreadable m),
                      ConsoleError ''Error marking attendance:''],
                     s')))"

text \<open>
  \<^verbatim>\<open>markAttendanceMutation.mutateAsync\<close>: one run of \<^verbatim>\<open>mutationFn\<close> (a mutation is
  not retried), then \<^verbatim>\<open>onSuccess\<close> or \<^verbatim>\<open>onError\<close>, then the promise settles.
\<close>

fun mutateAsync ::
  "('s \<Rightarrow> http_request \<Rightarrow> api_result \<times> 's) \<Rightarrow> bulk_state \<Rightarrow> 's \<Rightarrow> nat
     \<Rightarrow> attendance_status option \<Rightarrow> (string + unit) \<times> event list \<times> 's" where
  "mutateAsync apiRequest st s sid stat =
     (case mutationFn apiRequest st s sid stat of
        (Inr u, evs, s') \<Rightarrow> (Inr u, MutateAsync sid stat # evs @ [InvalidateQueries], s')
      | (Inl m, evs, s') \<Rightarrow>
          (Inl m,
           MutateAsync sid stat # evs
             @ [Toast \<lparr>title = ''Error'', description = Text m, variant = destructive\<rparr>],
           s'))"

text \<open>
  The \<^verbatim>\<open>for\<close> loop of \<^verbatim>\<open>saveAllAttendance\<close> over the student ids, with the two
  counters; \<^verbatim>\<open>attendanceData[parseInt(studentId)]\<close> is the status sent.
\<close>

fun saveLoop ::
  "('s \<Rightarrow> http_request \<Rightarrow> api_result \<times> 's) \<Rightarrow> bulk_state \<Rightarrow> nat list \<Rightarrow> 's \<Rightarrow> nat \<Rightarrow> nat
     \<Rightarrow> event list \<times> nat \<times> nat \<times> 's" where
  "saveLoop apiRequest st [] s successful failed = ([], successful, failed, s)"
| "saveLoop apiRequest st (sid # rest) s successful failed =
     (case mutateAsync apiRequest st s sid (map_of (attendanceData st) sid) of
        (Inr u, evs, s') \<Rightarrow>
          (case saveLoop apiRequest st rest s' (successful + 1) failed of
             (evs', r) \<Rightarrow> (evs @ [Delay 100] @ evs', r))
      | (Inl m, evs, s') \<Rightarrow>
          (case saveLoop apiRequest st rest s' successful (failed + 1) of
             (evs', r) \<Rightarrow>
               (evs @ [ConsoleError ''Failed to mark attendance for student''] @ evs', r)))"

text \<open>
  \<^verbatim>\<open>saveAllAttendance\<close>: the events of the run and the state of the world after it.
  Nothing in the outer \<^verbatim>\<open>try\<close> throws in this model, so its \<^verbatim>\<open>catch\<close> is not
  reached; \<^verbatim>\<open>finally\<close> resets \<^verbatim>\<open>isSaving\<close>.
\<close>

definition saveAllAttendance ::
  "('s \<Rightarrow> http_request \<Rightarrow> api_result \<times> 's) \<Rightarrow> bulk_state \<Rightarrow> 's \<Rightarrow> event list \<times> 's" where
  "saveAllAttendance apiRequest st s =
     (case saveLoop apiRequest st (Object_keys (attendanceData st)) s 0 0 of
        (evs, successful, failed, s') \<Rightarrow>
          ([SetIsSaving True] @ evs
             @ [InvalidateQueries, RefetchAttendance,
                Toast \<lparr>title = ''Attendance Saved'',
                       description = SavedSummary successful failed,
                       variant = (if successful > 0 \<and> failed = 0 then default_variant
                                  else destructive)\<rparr>,
                SetIsSaving False],
           s'))"


subsection \<open>The states of the bulk attendance page\<close>


text \<open>The request that \<^verbatim>\<open>mutationFn\<close> builds for a lesson, a status and a student.\<close>

abbreviation (input) bulkRequest ::
  "bulk_state \<Rightarrow> int \<Rightarrow> attendance_status option \<Rightarrow> nat \<Rightarrow> http_request" where
  "bulkRequest st lid stat sid \<equiv>
     \<lparr>http_method = ''POST'',
      url = (if forceAttendance st then ''/api/attendance?force=true'' else ''/api/attendance''),
      body = \<lparr>lessonId = lid, studentId = Some (int sid), status = stat\<rparr>\<rparr>"

subsection \<open>Reading a run\<close>

fun posts :: "event list \<Rightarrow> http_request list" where
  "posts [] = []"
| "posts (Post r # es) = r # posts es"
| "posts (e # es) = posts es"

fun attempts :: "event list \<Rightarrow> nat list" where
  "attempts [] = []"
| "attempts (MutateAsync sid stat # es) = sid # attempts es"
| "attempts (e # es) = attempts es"

fun summaries :: "event list \<Rightarrow> (nat \<times> nat) list" where
  "summaries [] = []"
| "summaries (Toast t # es) =
     (case description t of
        SavedSummary a b \<Rightarrow> (a, b) # summaries es
      | Text m \<Rightarrow> summaries es)"
| "summaries (e # es) = summaries es"

text \<open>The number of requests that settled with an ok response.\<close>

fun settled_ok :: "event list \<Rightarrow> nat" where
  "settled_ok [] = 0"
| "settled_ok (Settled r # es) = (if r = OkResponse then 1 else 0) + settled_ok es"
| "settled_ok (e # es) = settled_ok es"


text \<open>
  Strictly sequential: a request is sent only when none is in flight and no pause is
  pending; the pause of 100 ms comes after each request that succeeded, and only then.
\<close>

datatype phase = Idle | InFlight | Pausing

fun sequential :: "phase \<Rightarrow> event list \<Rightarrow> bool" where
  "sequential p [] = (p = Idle)"
| "sequential p (Post r # es) = (p = Idle \<and> sequential InFlight es)"
| "sequential p (Settled r # es) =
     (p = InFlight \<and> sequential (if r = OkResponse then Pausing else Idle) es)"
| "sequential p (Delay d # es) = (p = Pausing \<and> d = 100 \<and> sequential Idle es)"
| "sequential p (e # es) = sequential p es"

text \<open>A world in which the request for student \<open>2\<close> is refused and every other one succeeds.\<close>

definition refuse_student_2 :: "unit \<Rightarrow> http_request \<Rightarrow> api_result \<times> unit" where
  "refuse_student_2 s req =
     (if studentId (body req) = Some 2 then (NotOkResponse ''Attendance window closed'', s)
      else (OkResponse, s))"

definition bulk_example :: bulk_state where
  "bulk_example =
     \<lparr>lessonId_state = Some 7,
      attendanceData = [(3, present), (1, present), (2, absent)],
      forceAttendance = True\<rparr>"

definition bulk_unforced :: bulk_state where
  "bulk_unforced =
     \<lparr>lessonId_state = Some 7, attendanceData = [(1, present)], forceAttendance = False\<rparr>"


section \<open>The create-lesson form\<close>

text \<open>
  The values that the form hands to the schema are JavaScript values. A number is NaN,
  an infinity, or finite; the finite ones are compared as the rationals they are.
\<close>

datatype js_number = NaN | PosInfinity | NegInfinity | Finite rat

datatype js_value =
    JUndefined
  | JNull
  | JBoolean bool
  | JNumber js_number
  | JString string

text \<open>
  \<^verbatim>\<open>Number(v)\<close>, the coercion of \<^verbatim>\<open>z.coerce.number()\<close>. How a string is read as a
  number is the parameter \<open>s2n\<close>.
\<close>

fun ToNumber :: "(string \<Rightarrow> js_number) \<Rightarrow> js_value \<Rightarrow> js_number" where
  "ToNumber s2n JUndefined = NaN"
| "ToNumber s2n JNull = Finite 0"
| "ToNumber s2n (JBoolean b) = Finite (if b then 1 else 0)"
| "ToNumber s2n (JNumber n) = n"
| "ToNumber s2n (JString s) = s2n s"

text \<open>The comparisons \<^verbatim>\<open>x >= n\<close> and \<^verbatim>\<open>x <= n\<close> of a number with a finite bound.\<close>

fun num_ge :: "js_number \<Rightarrow> rat \<Rightarrow> bool" where
  "num_ge NaN n = False"
| "num_ge PosInfinity n = True"
| "num_ge NegInfinity n = False"
| "num_ge (Finite x) n = (x \<ge> n)"

fun num_le :: "js_number \<Rightarrow> rat \<Rightarrow> bool" where
  "num_le NaN n = False"
| "num_le PosInfinity n = False"
| "num_le NegInfinity n = True"
| "num_le (Finite x) n = (x \<le> n)"

text \<open>
  The schema combinators: a schema maps a value to the parsed value, or to \<open>None\<close> when
  it raises an issue. \<^verbatim>\<open>z.coerce.number()\<close> refuses NaN; \<^verbatim>\<open>.min\<close> and \<^verbatim>\<open>.max\<close> are
  inclusive; \<^verbatim>\<open>.default(d)\<close> and \<^verbatim>\<open>.optional()\<close> look at \<^verbatim>\<open>undefined\<close> only.
\<close>

definition z_coerce_number :: "(string \<Rightarrow> js_number) \<Rightarrow> js_value \<Rightarrow> js_number option" where
  "z_coerce_number s2n v = (let n = ToNumber s2n v in if n = NaN then None else Some n)"

definition z_min :: "rat \<Rightarrow> (js_value \<Rightarrow> js_number option) \<Rightarrow> js_value \<Rightarrow> js_number option" where
  "z_min n schema v =
     (case schema v of None \<Rightarrow> None | Some x \<Rightarrow> if num_ge x n then Some x else None)"

definition z_max :: "rat \<Rightarrow> (js_value \<Rightarrow> js_number option) \<Rightarrow> js_value \<Rightarrow> js_number option" where
  "z_max n schema v =
     (case schema v of None \<Rightarrow> None | Some x \<Rightarrow> if num_le x n then Some x else None)"

definition z_string :: "js_value \<Rightarrow> string option" where
  "z_string v = (case v of JString s \<Rightarrow> Some s | _ \<Rightarrow> None)"

definition z_string_min :: "nat \<Rightarrow> (js_value \<Rightarrow> string option) \<Rightarrow> js_value \<Rightarrow> string option" where
  "z_string_min n schema v =
     (case schema v of None \<Rightarrow> None | Some s \<Rightarrow> if length s \<ge> n then Some s else None)"

definition z_boolean :: "js_value \<Rightarrow> bool option" where
  "z_boolean v = (case v of JBoolean b \<Rightarrow> Some b | _ \<Rightarrow> None)"

definition z_optional :: "(js_value \<Rightarrow> 'a option) \<Rightarrow> js_value \<Rightarrow> 'a option option" where
  "z_optional schema v = (if v = JUndefined then Some None else map_option Some (schema v))"

definition z_default :: "js_value \<Rightarrow> (js_value \<Rightarrow> 'a option) \<Rightarrow> js_value \<Rightarrow> 'a option" where
  "z_default d schema v = schema (if v = JUndefined then d else v)"

text \<open>
  What the schema gives for a valid submission. The fields carry the prefix \<open>form_\<close>,
  the names without it being those of a lesson's fields above.
\<close>

record lesson_form_data =
  form_classId :: js_number
  form_subject :: string
  form_dayOfWeek :: js_number
  form_startTimeMinutes :: js_number
  form_durationMinutes :: js_number
  form_location :: "string option"
  form_attendanceWindowMinutes :: js_number
  form_isActive :: bool

text \<open>
  \<^verbatim>\<open>formSchema\<close> applied to the form's values (an object, read by key; a key that is
  not there reads as \<^verbatim>\<open>undefined\<close>): the parsed data, or the keys that raised an issue.
\<close>

definition formSchema ::
  "(string \<Rightarrow> js_number) \<Rightarrow> (string \<Rightarrow> js_value) \<Rightarrow> string list + lesson_form_data" where
  "formSchema s2n input =
     (let classId = z_coerce_number s2n (input ''classId'');
          subject = z_string_min 2 z_string (input ''subject'');
          dayOfWeek = z_max 6 (z_min 0 (z_coerce_number s2n)) (input ''dayOfWeek'');
          startTimeMinutes =
            z_max (24 * 60 - 1) (z_min 0 (z_coerce_number s2n)) (input ''startTimeMinutes'');
          durationMinutes =
            z_max 240 (z_min 30 (z_coerce_number s2n)) (input ''durationMinutes'');
          location = z_optional z_string (input ''location'');
          attendanceWindowMinutes =
            z_default (JNumber (Finite 30)) (z_max 60 (z_min 5 (z_coerce_number s2n)))
              (input ''attendanceWindowMinutes'');
          isActive = z_default (JBoolean True) z_boolean (input ''isActive'');
          issues =
            (if classId = None then [''classId''] else [])
            @ (if subject = None then [''subject''] else [])
            @ (if dayOfWeek = None then [''dayOfWeek''] else [])
            @ (if startTimeMinutes = None then [''startTimeMinutes''] else [])
            @ (if durationMinutes = None then [''durationMinutes''] else [])
            @ (if location = None then [''location''] else [])
            @ (if attendanceWindowMinutes = None then [''attendanceWindowMinutes''] else [])
            @ (if isActive = None then [''isActive''] else [])
      in case classId of None \<Rightarrow> Inl issues | Some c \<Rightarrow>
         case subject of None \<Rightarrow> Inl issues | Some sb \<Rightarrow>
         case dayOfWeek of None \<Rightarrow> Inl issues | Some dw \<Rightarrow>
         case startTimeMinutes of None \<Rightarrow> Inl issues | Some st \<Rightarrow>
         case durationMinutes of None \<Rightarrow> Inl issues | Some du \<Rightarrow>
         case location of None \<Rightarrow> Inl issues | Some lo \<Rightarrow>
         case attendanceWindowMinutes of None \<Rightarrow> Inl issues | Some aw \<Rightarrow>
         case isActive of None \<Rightarrow> Inl issues | Some ia \<Rightarrow>
           Inr \<lparr>form_classId = c, form_subject = sb, form_dayOfWeek = dw,
                form_startTimeMinutes = st, form_durationMinutes = du, form_location = lo,
                form_attendanceWindowMinutes = aw, form_isActive = ia\<rparr>)"

text \<open>
  Submitting the form: \<^verbatim>\<open>form.handleSubmit(onSubmit)\<close> runs the resolver of the
  schema and calls \<^verbatim>\<open>onSubmit\<close>, hence \<^verbatim>\<open>createLessonMutation\<close> and its POST, on
  valid data only. The result is the list of requests made.
\<close>

record lesson_post =
  post_method :: string
  post_url :: string
  post_data :: lesson_form_data

definition handleSubmit ::
  "(string \<Rightarrow> js_number) \<Rightarrow> (string \<Rightarrow> js_value) \<Rightarrow> lesson_post list" where
  "handleSubmit s2n input =
     (case formSchema s2n input of
        Inl issues \<Rightarrow> []
      | Inr d \<Rightarrow> [\<lparr>post_method = ''POST'', post_url = ''/api/lessons'', post_data = d\<rparr>])"

text \<open>
  An object given by its entries, and a reading of strings under which no string is a
  number; the example forms below hold their numbers as numbers.
\<close>

definition object :: "(string \<times> js_value) list \<Rightarrow> string \<Rightarrow> js_value" where
  "object entries k = (case map_of entries k of None \<Rightarrow> JUndefined | Some v \<Rightarrow> v)"

definition no_numeric_strings :: "string \<Rightarrow> js_number" where
  "no_numeric_strings s = NaN"

definition form_example :: "string \<Rightarrow> js_value" where
  "form_example =
     object [(''classId'', JNumber (Finite 3)), (''subject'', JString ''Maths''),
             (''dayOfWeek'', JNumber (Finite 1)), (''startTimeMinutes'', JNumber (Finite 480)),
             (''durationMinutes'', JNumber (Finite 60)), (''location'', JString ''Room 2'')]"

definition form_long_lesson :: "string \<Rightarrow> js_value" where
  "form_long_lesson =
     object [(''classId'', JNumber (Finite 3)), (''subject'', JString ''Maths''),
             (''dayOfWeek'', JNumber (Finite 1)), (''startTimeMinutes'', JNumber (Finite 480)),
             (''durationMinutes'', JNumber (Finite 300))]"

section \<open>The date of a lesson (bulk attendance page)\<close>

text \<open>
  \<^verbatim>\<open>a % b\<close> of JavaScript on integers: the remainder has the sign of the dividend.
\<close>

definition js_rem :: "int \<Rightarrow> int \<Rightarrow> int" where
  "js_rem a b = sgn a * (\<bar>a\<bar> mod \<bar>b\<bar>)"

text \<open>
  The setters of a date, after ECMAScript: each takes the local time of the date, puts
  the new fields in, and converts the new local time back with \<open>UTC\<close>, under the offset
  that the zone gives for that local time. A local time that an offset change skips
  thus comes back as a later one. The calendar enters through \<open>firstOfMonth\<close>
  only: the day number of the first day of the month that a day number lies in. Then
  \<open>DateFromTime\<close> is the day of the month, and \<open>MakeDay\<close> of the year and month of \<open>t\<close>
  and a day-of-month \<open>dt\<close>, which may lie beyond the end of the month, is the day number
  counted on from the first of the month. The calendar is a parameter of the model.
\<close>

definition UTC :: "time_zone \<Rightarrow> int \<Rightarrow> int" where
  "UTC tza t = t - tza t False"

definition MakeTime :: "int \<Rightarrow> int \<Rightarrow> int \<Rightarrow> int \<Rightarrow> int" where
  "MakeTime hour minute sec ms = hour * msPerHour + minute * msPerMinute + sec * 1000 + ms"

definition MakeDate :: "int \<Rightarrow> int \<Rightarrow> int" where
  "MakeDate day time = day * msPerDay + time"

definition DateFromTime :: "(int \<Rightarrow> int) \<Rightarrow> int \<Rightarrow> int" where
  "DateFromTime firstOfMonth t = Day t - firstOfMonth (Day t) + 1"

definition MakeDay_in_month_of :: "(int \<Rightarrow> int) \<Rightarrow> int \<Rightarrow> int \<Rightarrow> int" where
  "MakeDay_in_month_of firstOfMonth t dt = firstOfMonth (Day t) + dt - 1"

definition getDate :: "(int \<Rightarrow> int) \<Rightarrow> time_zone \<Rightarrow> int \<Rightarrow> int" where
  "getDate firstOfMonth tza d = DateFromTime firstOfMonth (LocalTime tza d)"

definition setDate :: "(int \<Rightarrow> int) \<Rightarrow> time_zone \<Rightarrow> int \<Rightarrow> int \<Rightarrow> int" where
  "setDate firstOfMonth tza d dt =
     (let t = LocalTime tza d;
          newDate = MakeDate (MakeDay_in_month_of firstOfMonth t dt) (TimeWithinDay t)
      in UTC tza newDate)"

definition setHours :: "time_zone \<Rightarrow> int \<Rightarrow> int \<Rightarrow> int \<Rightarrow> int \<Rightarrow> int \<Rightarrow> int" where
  "setHours tza d hour minute sec ms =
     (let t = LocalTime tza d;
          date = MakeDate (Day t) (MakeTime hour minute sec ms)
      in UTC tza date)"

fun calculateLessonDate :: "(int \<Rightarrow> int) \<Rightarrow> time_zone \<Rightarrow> int \<Rightarrow> lesson option \<Rightarrow> int option" where
  "calculateLessonDate firstOfMonth tza now None = None"
| "calculateLessonDate firstOfMonth tza now (Some l) =
     (let currentDayOfWeek = getDay tza now;
          daysUntilNext = js_rem (dayOfWeek l - currentDayOfWeek + 7) 7;
          nextDate = now;
          nextDate = setDate firstOfMonth tza nextDate
                       (getDate firstOfMonth tza now + daysUntilNext);
          nextDate = setHours tza nextDate 0 0 0 0
      in Some nextDate)"

text \<open>The local day number of a date, the day of week of a day number.\<close>

definition localDay :: "time_zone \<Rightarrow> int \<Rightarrow> int" where
  "localDay tza d = Day (LocalTime tza d)"

definition weekdayOfDay :: "int \<Rightarrow> int" where
  "weekdayOfDay n = (n + 4) mod 7"

text \<open>
  The day from today on that has the lesson's day of week, and the local times that
  exist in a zone: those that come back as themselves.
\<close>

definition targetDay :: "time_zone \<Rightarrow> int \<Rightarrow> lesson \<Rightarrow> int" where
  "targetDay tza now l = localDay tza now + (dayOfWeek l - getDay tza now + 7) mod 7"

definition exists_locally :: "time_zone \<Rightarrow> int \<Rightarrow> bool" where
  "exists_locally tza t = (LocalTime tza (UTC tza t) = t)"

text \<open>
  The calendar of autumn 2026: 1 September, 1 October and 1 November are the day
  numbers \<open>20697\<close>, \<open>20727\<close> and \<open>20758\<close>.
\<close>

definition firstOfMonth_2026 :: "int \<Rightarrow> int" where
  "firstOfMonth_2026 n = (if n < 20727 then 20697 else if n < 20758 then 20727 else 20758)"

section \<open>Properties of the attendance window checks\<close>

lemma clock_1010 [simp]:
  "getDay utc_zone 36600000 = 4" "currentMinutes utc_zone 36600000 = 610"
  by (simp_all add: getDay_def currentMinutes_def getHours_def getMinutes_def WeekDay_def
      Day_def LocalTime_def utc_zone_def HourFromTime_def MinFromTime_def msPerDay_def
      msPerHour_def msPerMinute_def)

lemma clock_0910 [simp]:
  "getDay utc_zone 33000000 = 4" "currentMinutes utc_zone 33000000 = 550"
  by (simp_all add: getDay_def currentMinutes_def getHours_def getMinutes_def WeekDay_def
      Day_def LocalTime_def utc_zone_def HourFromTime_def MinFromTime_def msPerDay_def
      msPerHour_def msPerMinute_def)

lemma or_default_30:
  "or_default w 30 = (if w = None \<or> w = Some 0 then 30 else the w)"
  by (cases w) auto

lemma regular_not_instant: "regular_lesson now l \<Longrightarrow> \<not> isInstantLesson now l"
  by (auto simp: regular_lesson_def getTime_def split: option.splits js_date.splits)

text \<open>
  C1, as amended. For every regular lesson (\<open>createdAt\<close> absent, or at least 24 hours
  before now) the dashboard's \<open>isAttendanceWindowOpen\<close> is true exactly when the lesson's
  day of week is today's and the minutes since midnight \<open>m\<close> satisfy
  \<open>startTimeMinutes \<le> m \<le> startTimeMinutes + w\<close>, where \<open>w\<close> is
  \<open>attendanceWindowMinutes\<close>, or 30 when that field is absent or is 0.
\<close>

theorem C1_regular_window:
  assumes "regular_lesson now l"
  shows "isAttendanceWindowOpen tza now (Some l) \<longleftrightarrow>
           dayOfWeek l = getDay tza now
         \<and> startTimeMinutes l \<le> currentMinutes tza now
         \<and> currentMinutes tza now \<le> startTimeMinutes l +
              (if attendanceWindowMinutes l = None \<or> attendanceWindowMinutes l = Some 0
               then 30 else the (attendanceWindowMinutes l))"
  using regular_not_instant [OF assms]
  unfolding isAttendanceWindowOpen.simps or_default_30 [symmetric] Let_def by auto

text \<open>At 10:10 the window of a regular lesson that started at 10:00 with 20 minutes is open.\<close>

theorem C1_regular_window_witness:
  "regular_lesson 36600000 lesson_plain
   \<and> isAttendanceWindowOpen utc_zone 36600000 (Some lesson_plain)
   \<and> dayOfWeek lesson_plain = getDay utc_zone 36600000
   \<and> startTimeMinutes lesson_plain \<le> currentMinutes utc_zone 36600000
   \<and> currentMinutes utc_zone 36600000 \<le> startTimeMinutes lesson_plain + 20"
proof -
  have r: "regular_lesson 36600000 lesson_plain"
    by (simp add: regular_lesson_def lesson_plain_def)
  show ?thesis
    using r C1_regular_window [OF r, of utc_zone] by (simp add: lesson_plain_def)
qed

text \<open>
  With a window of 0 minutes the interval of the specification is the single minute
  10:00; the check is open at 10:10, the 0 being replaced by 30.
\<close>

theorem C1_zero_window_counterexample:
  "regular_lesson 36600000 lesson_zero_window
   \<and> isAttendanceWindowOpen utc_zone 36600000 (Some lesson_zero_window)
   \<and> \<not> within_window_as_specified utc_zone 36600000 lesson_zero_window"
  by (simp add: regular_lesson_def lesson_zero_window_def within_window_as_specified_def
      window_or_30_when_absent_def)

text \<open>
  C2, as amended. For a lesson that is not instant, \<open>isAttendanceWindowOpen\<close> is true only
  at or after the lesson's start. For an instant lesson (created within the past 24
  hours) the check does not look at the start: it is true exactly when the lesson's day
  of week is today's and the minutes since midnight are at most the later of
  \<open>startTimeMinutes + w\<close> and creation minutes \<open>+ w\<close>, so it can hold before the start.
  The creation minutes are the local time of day of \<open>createdAt\<close> under the zone's offset
  at that instant.
\<close>

theorem C2_start_or_instant:
  "(\<not> isInstantLesson now l \<and> isAttendanceWindowOpen tza now (Some l)
      \<longrightarrow> startTimeMinutes l \<le> currentMinutes tza now)
   \<and> (isInstantLesson now l \<longrightarrow>
        (isAttendanceWindowOpen tza now (Some l) \<longleftrightarrow>
           dayOfWeek l = getDay tza now
         \<and> currentMinutes tza now \<le>
             max (startTimeMinutes l + or_default (attendanceWindowMinutes l) 30)
                 (creationTimeMinutes tza l + or_default (attendanceWindowMinutes l) 30)))"
  unfolding isAttendanceWindowOpen.simps Let_def by auto

theorem C2_start_or_instant_witness:
  "\<not> isInstantLesson 36600000 lesson_plain
   \<and> isAttendanceWindowOpen utc_zone 36600000 (Some lesson_plain)
   \<and> startTimeMinutes lesson_plain \<le> currentMinutes utc_zone 36600000
   \<and> isInstantLesson 33000000 lesson_instant
   \<and> isAttendanceWindowOpen utc_zone 33000000 (Some lesson_instant)
   \<and> currentMinutes utc_zone 33000000 \<le>
       max (startTimeMinutes lesson_instant + 30)
           (creationTimeMinutes utc_zone lesson_instant + 30)
   \<and> isInstantLesson 1793514600000 lesson_instant_new_york
   \<and> isAttendanceWindowOpen new_york 1793514600000 (Some lesson_instant_new_york)
   \<and> creationTimeMinutes new_york lesson_instant_new_york = 90
   \<and> currentMinutes new_york 1793514600000 = 90"
proof -
  note clock = getTime_def getDay_def currentMinutes_def getHours_def getMinutes_def
    WeekDay_def Day_def LocalTime_def HourFromTime_def MinFromTime_def msPerDay_def
    msPerHour_def msPerMinute_def
  have utc: "creationTimeMinutes utc_zone lesson_instant = 540"
    "isInstantLesson 33000000 lesson_instant" "\<not> isInstantLesson 36600000 lesson_plain"
    by (simp_all add: lesson_instant_def lesson_plain_def utc_zone_def clock)
  have ny: "creationTimeMinutes new_york lesson_instant_new_york = 90"
    "currentMinutes new_york 1793514600000 = 90"
    "getDay new_york 1793514600000 = 0"
    "isInstantLesson 1793514600000 lesson_instant_new_york"
    by (simp_all add: lesson_instant_new_york_def new_york_def clock)
  have fields: "dayOfWeek lesson_instant_new_york = 0"
    "startTimeMinutes lesson_instant_new_york = 30"
    "attendanceWindowMinutes lesson_instant_new_york = None"
    "dayOfWeek lesson_instant = 4" "startTimeMinutes lesson_instant = 600"
    "attendanceWindowMinutes lesson_instant = None"
    "dayOfWeek lesson_plain = 4" "startTimeMinutes lesson_plain = 600"
    "attendanceWindowMinutes lesson_plain = Some 20"
    by (simp_all add: lesson_instant_new_york_def lesson_instant_def lesson_plain_def)
  have plain: "isAttendanceWindowOpen utc_zone 36600000 (Some lesson_plain)"
    by (simp add: lesson_plain_def)
  show ?thesis
    using C2_start_or_instant [of 36600000 lesson_plain utc_zone]
      C2_start_or_instant [of 33000000 lesson_instant utc_zone]
      C2_start_or_instant [of 1793514600000 lesson_instant_new_york new_york]
    by (simp add: utc ny fields plain del: isInstantLesson.simps creationTimeMinutes.simps
        isAttendanceWindowOpen.simps)
qed

text \<open>
  An instant lesson created at 09:00 that starts at 10:00: at 09:10 the check is open,
  50 minutes before the start.
\<close>

theorem C2_instant_before_start_counterexample:
  "isAttendanceWindowOpen utc_zone 33000000 (Some lesson_instant)
   \<and> currentMinutes utc_zone 33000000 < startTimeMinutes lesson_instant"
  by (simp add: lesson_instant_def getTime_def getHours_def getMinutes_def LocalTime_def
      utc_zone_def HourFromTime_def MinFromTime_def msPerHour_def msPerMinute_def)

text \<open>
  C3. The dashboard's \<open>isAttendanceWindowOpen\<close> and the lessons page's
  \<open>canMarkAttendance\<close> differ on some lesson and time: on an unmarked lesson without a
  window length (the defaults are 30 and 15 minutes), and on a lesson that is already
  marked (only the lessons page asks for an unmarked lesson).
\<close>

theorem C3_checks_differ:
  "(\<exists>tza now l. attendanceWindowMinutes l = None \<and> attendance l = None
       \<and> isAttendanceWindowOpen tza now (Some l) \<and> \<not> canMarkAttendance tza now (Some l))
   \<and> (\<exists>tza now l. attendanceWindowMinutes l \<noteq> None \<and> attendance l \<noteq> None
       \<and> isAttendanceWindowOpen tza now (Some l) \<and> \<not> canMarkAttendance tza now (Some l))"
proof (intro conjI)
  have "attendanceWindowMinutes lesson_no_window = None \<and> attendance lesson_no_window = None
    \<and> isAttendanceWindowOpen utc_zone 36600000 (Some lesson_no_window)
    \<and> \<not> canMarkAttendance utc_zone 36600000 (Some lesson_no_window)"
    by (simp add: lesson_no_window_def)
  then show "\<exists>tza now l. attendanceWindowMinutes l = None \<and> attendance l = None
       \<and> isAttendanceWindowOpen tza now (Some l) \<and> \<not> canMarkAttendance tza now (Some l)"
    by blast
  have "attendanceWindowMinutes lesson_marked \<noteq> None \<and> attendance lesson_marked \<noteq> None
    \<and> isAttendanceWindowOpen utc_zone 36600000 (Some lesson_marked)
    \<and> \<not> canMarkAttendance utc_zone 36600000 (Some lesson_marked)"
    by (simp add: lesson_marked_def)
  then show "\<exists>tza now l. attendanceWindowMinutes l \<noteq> None \<and> attendance l \<noteq> None
       \<and> isAttendanceWindowOpen tza now (Some l) \<and> \<not> canMarkAttendance tza now (Some l)"
    by blast
qed

text \<open>
  C5. On the student lessons page, a lesson that already has an attendance record is
  never one for which \<open>canMarkAttendance\<close> holds, whatever the time; the footer of its
  card shows the disabled "Already Marked" button and not the "Mark Present" button.
\<close>

theorem C5_marked_never_offered:
  assumes "attendance l \<noteq> None"
  shows "\<not> canMarkAttendance tza now (Some l) \<and> cardFooter tza now l = AlreadyMarked"
  using assms by (simp add: Let_def)

theorem C5_marked_never_offered_witness:
  "attendance lesson_marked \<noteq> None
   \<and> \<not> canMarkAttendance utc_zone 36600000 (Some lesson_marked)
   \<and> cardFooter utc_zone 36600000 lesson_marked = AlreadyMarked"
proof -
  have a: "attendance lesson_marked \<noteq> None"
    by (simp add: lesson_marked_def)
  show ?thesis
    using a C5_marked_never_offered [OF a, of utc_zone 36600000] by simp
qed

text \<open>
  C10. On the student lessons page a lesson with a nonnegative duration is never both
  upcoming and past. The two are not exhaustive: a lesson of today with
  \<open>startTimeMinutes \<le> m \<le> startTimeMinutes + durationMinutes\<close> is neither. The days are
  compared as numbers and not around the week: a lesson on an earlier weekday than
  today is never upcoming.
\<close>

theorem C10_future_past:
  "(0 \<le> durationMinutes l \<longrightarrow> \<not> (isLessonInFuture tza now l \<and> isLessonInPast tza now l))
   \<and> (dayOfWeek l = getDay tza now
        \<and> startTimeMinutes l \<le> currentMinutes tza now
        \<and> currentMinutes tza now \<le> startTimeMinutes l + durationMinutes l
      \<longrightarrow> \<not> isLessonInFuture tza now l \<and> \<not> isLessonInPast tza now l)
   \<and> (dayOfWeek l < getDay tza now \<longrightarrow> \<not> isLessonInFuture tza now l)"
  by auto

theorem C10_future_past_witness:
  "0 \<le> durationMinutes lesson_plain
   \<and> dayOfWeek lesson_plain = getDay utc_zone 36600000
   \<and> startTimeMinutes lesson_plain \<le> currentMinutes utc_zone 36600000
   \<and> currentMinutes utc_zone 36600000 \<le> startTimeMinutes lesson_plain + durationMinutes lesson_plain
   \<and> \<not> isLessonInFuture utc_zone 36600000 lesson_plain
   \<and> \<not> isLessonInPast utc_zone 36600000 lesson_plain
   \<and> dayOfWeek lesson_monday < getDay utc_zone 36600000
   \<and> \<not> isLessonInFuture utc_zone 36600000 lesson_monday"
  using C10_future_past [of lesson_plain utc_zone 36600000]
        C10_future_past [of lesson_monday utc_zone 36600000]
  by (simp add: lesson_plain_def lesson_monday_def)

section \<open>Properties of saving the bulk attendance\<close>

lemma posts_append: "posts (xs @ ys) = posts xs @ posts ys"
  by (induction xs rule: posts.induct) simp_all

lemma attempts_append: "attempts (xs @ ys) = attempts xs @ attempts ys"
  by (induction xs rule: attempts.induct) simp_all

lemma summaries_append: "summaries (xs @ ys) = summaries xs @ summaries ys"
  by (induction xs rule: summaries.induct) (simp_all split: toast_description.splits)

lemma settled_ok_append: "settled_ok (xs @ ys) = settled_ok xs + settled_ok ys"
  by (induction xs rule: settled_ok.induct) simp_all



text \<open>One call of \<open>mutateAsync\<close>: what it adds to the run.\<close>

lemma mutateAsync_block:
  assumes "mutateAsync api st s sid stat = (res, evs, s')"
  shows "attempts evs = [sid]"
    and "summaries evs = []"
    and "settled_ok evs = (case res of Inr u \<Rightarrow> 1 | Inl m \<Rightarrow> 0)"
    and "posts evs =
           (case lessonId_state st of
              None \<Rightarrow> []
            | Some lid \<Rightarrow> if lid = 0 then [] else [bulkRequest st lid stat sid])"
    and "sequential Idle (evs @ rest) =
           sequential (case res of Inr u \<Rightarrow> Pausing | Inl m \<Rightarrow> Idle) rest"
  using assms
  by (auto simp: Let_def
      split: option.splits if_splits prod.splits api_result.splits sum.splits)

text \<open>The loop, by induction on the student ids that are left.\<close>

lemma saveLoop_facts:
  "saveLoop api st ids s a b = (evs, a', b', s') \<Longrightarrow>
     attempts evs = ids
   \<and> summaries evs = []
   \<and> a' + b' = a + b + length ids
   \<and> a' = a + settled_ok evs
   \<and> posts evs =
         (case lessonId_state st of
            None \<Rightarrow> []
          | Some lid \<Rightarrow>
              if lid = 0 then []
              else map (\<lambda>sid. bulkRequest st lid (map_of (attendanceData st) sid) sid) ids)
   \<and> (\<forall>rest. sequential Idle (evs @ rest) = sequential Idle rest)"
proof (induction ids arbitrary: s a b evs)
  case Nil
  then show ?case by (simp split: option.splits)
next
  case (Cons sid ids)
  obtain res evs0 s0 where
    m: "mutateAsync api st s sid (map_of (attendanceData st) sid) = (res, evs0, s0)"
    using prod_cases3 by blast
  note blk = mutateAsync_block [OF m]
  show ?case
  proof (cases res)
    case (Inl msg)
    with Cons.prems m obtain evs1 where
      loop: "saveLoop api st ids s0 a (b + 1) = (evs1, a', b', s')" and
      evs: "evs = evs0 @ [ConsoleError ''Failed to mark attendance for student''] @ evs1"
      by (auto simp del: mutateAsync.simps split: prod.splits)
    from Cons.IH [OF loop] blk Inl show ?thesis
      by (simp add: evs attempts_append summaries_append posts_append settled_ok_append
          split: option.splits)
  next
    case (Inr u)
    with Cons.prems m obtain evs1 where
      loop: "saveLoop api st ids s0 (a + 1) b = (evs1, a', b', s')" and
      evs: "evs = evs0 @ [Delay 100] @ evs1"
      by (auto simp del: mutateAsync.simps split: prod.splits)
    from Cons.IH [OF loop] blk Inr show ?thesis
      by (simp add: evs attempts_append summaries_append posts_append settled_ok_append
          split: option.splits)
  qed
qed


lemma saveAllAttendance_trace:
  obtains evs successful failed s' where
    "saveLoop api st (Object_keys (attendanceData st)) s 0 0 = (evs, successful, failed, s')"
    "saveAllAttendance api st s =
       ([SetIsSaving True] @ evs
          @ [InvalidateQueries, RefetchAttendance,
             Toast \<lparr>title = ''Attendance Saved'',
                    description = SavedSummary successful failed,
                    variant = (if successful > 0 \<and> failed = 0 then default_variant
                               else destructive)\<rparr>,
             SetIsSaving False],
        s')"
proof -
  obtain evs successful failed s' where
    l: "saveLoop api st (Object_keys (attendanceData st)) s 0 0 = (evs, successful, failed, s')"
    using prod_cases4 by blast
  show thesis
    by (rule that [OF l]) (simp add: saveAllAttendance_def l)
qed

lemma saveAllAttendance_posts:
  "posts (fst (saveAllAttendance api st s)) =
     (case lessonId_state st of
        None \<Rightarrow> []
      | Some lid \<Rightarrow>
          if lid = 0 then []
          else map (\<lambda>sid. bulkRequest st lid (map_of (attendanceData st) sid) sid)
                 (Object_keys (attendanceData st)))"
proof -
  obtain evs successful failed s' where
    l: "saveLoop api st (Object_keys (attendanceData st)) s 0 0 = (evs, successful, failed, s')"
    and t: "saveAllAttendance api st s =
       ([SetIsSaving True] @ evs
          @ [InvalidateQueries, RefetchAttendance,
             Toast \<lparr>title = ''Attendance Saved'',
                    description = SavedSummary successful failed,
                    variant = (if successful > 0 \<and> failed = 0 then default_variant
                               else destructive)\<rparr>,
             SetIsSaving False],
        s')"
    by (rule saveAllAttendance_trace)
  show ?thesis
    using saveLoop_facts [OF l] by (simp add: t posts_append)
qed

lemma bulk_example_posts:
  "posts (fst (saveAllAttendance refuse_student_2 bulk_example ())) =
    [\<lparr>http_method = ''POST'', url = ''/api/attendance?force=true'',
      body = \<lparr>lessonId = 7, studentId = Some 1, status = Some present\<rparr>\<rparr>,
     \<lparr>http_method = ''POST'', url = ''/api/attendance?force=true'',
      body = \<lparr>lessonId = 7, studentId = Some 2, status = Some absent\<rparr>\<rparr>,
     \<lparr>http_method = ''POST'', url = ''/api/attendance?force=true'',
      body = \<lparr>lessonId = 7, studentId = Some 3, status = Some present\<rparr>\<rparr>]"
  by (simp add: saveAllAttendance_def bulk_example_def Object_keys_def refuse_student_2_def
      or_text_def)

lemma bulk_unforced_posts:
  "posts (fst (saveAllAttendance refuse_student_2 bulk_unforced ())) =
    [\<lparr>http_method = ''POST'', url = ''/api/attendance'',
      body = \<lparr>lessonId = 7, studentId = Some 1, status = Some present\<rparr>\<rparr>]"
  by (simp add: saveAllAttendance_def bulk_unforced_def Object_keys_def refuse_student_2_def
      or_text_def)


text \<open>
  C4. Every attendance POST that saving the bulk attendance sends goes to
  \<^verbatim>\<open>/api/attendance?force=true\<close> exactly when \<open>forceAttendance\<close> (the "Override
  attendance window" checkbox) is set, and to \<^verbatim>\<open>/api/attendance\<close>, without a force
  parameter, otherwise. The self-marking POST of the student lessons page always goes to
  \<^verbatim>\<open>/api/attendance\<close>.
\<close>

theorem C4_force_parameter:
  "(\<forall>req \<in> set (posts (fst (saveAllAttendance api st s))).
      (url req = ''/api/attendance?force=true'') = forceAttendance st
    \<and> (url req = ''/api/attendance'') = (\<not> forceAttendance st))
   \<and> url (studentMarkAttendanceRequest userId dataLessonId) = ''/api/attendance''"
  unfolding saveAllAttendance_posts
  by (auto simp: studentMarkAttendanceRequest_def split: option.splits if_splits)

theorem C4_force_parameter_witness:
  "\<lparr>http_method = ''POST'', url = ''/api/attendance?force=true'',
     body = \<lparr>lessonId = 7, studentId = Some 1, status = Some present\<rparr>\<rparr>
     \<in> set (posts (fst (saveAllAttendance refuse_student_2 bulk_example ())))
   \<and> forceAttendance bulk_example
   \<and> \<lparr>http_method = ''POST'', url = ''/api/attendance'',
       body = \<lparr>lessonId = 7, studentId = Some 1, status = Some present\<rparr>\<rparr>
     \<in> set (posts (fst (saveAllAttendance refuse_student_2 bulk_unforced ())))
   \<and> \<not> forceAttendance bulk_unforced"
proof -
  have f: "forceAttendance bulk_example" "\<not> forceAttendance bulk_unforced"
    by (simp_all add: bulk_example_def bulk_unforced_def)
  show ?thesis
    using f C4_force_parameter [of refuse_student_2 bulk_example "()"]
      C4_force_parameter [of refuse_student_2 bulk_unforced "()"]
    by (simp add: bulk_example_posts bulk_unforced_posts)
qed




section \<open>Properties of the create-lesson form\<close>

lemma bounded_number:
  assumes "z_max hi (z_min lo (z_coerce_number s2n)) v = Some x"
  shows "x = ToNumber s2n v \<and> (\<exists>q. x = Finite q \<and> lo \<le> q \<and> q \<le> hi)"
proof -
  from assms have eq: "x = ToNumber s2n v" and bounds: "num_ge x lo" "num_le x hi"
    by (auto simp: z_max_def z_min_def z_coerce_number_def Let_def
        split: option.splits if_splits)
  from bounds have "\<exists>q. x = Finite q \<and> lo \<le> q \<and> q \<le> hi"
    by (cases x) auto
  with eq show ?thesis by (rule conjI)
qed

lemma string_min:
  assumes "z_string_min n z_string v = Some s"
  shows "v = JString s \<and> n \<le> length s"
  using assms
  by (cases v) (auto simp: z_string_min_def z_string_def split: if_splits)

lemma formSchema_Inr:
  assumes "formSchema s2n input = Inr d"
  shows "z_string_min 2 z_string (input ''subject'') = Some (form_subject d)"
    and "z_max 6 (z_min 0 (z_coerce_number s2n)) (input ''dayOfWeek'') = Some (form_dayOfWeek d)"
    and "z_max (24 * 60 - 1) (z_min 0 (z_coerce_number s2n)) (input ''startTimeMinutes'')
           = Some (form_startTimeMinutes d)"
    and "z_max 240 (z_min 30 (z_coerce_number s2n)) (input ''durationMinutes'')
           = Some (form_durationMinutes d)"
    and "z_default (JNumber (Finite 30)) (z_max 60 (z_min 5 (z_coerce_number s2n)))
           (input ''attendanceWindowMinutes'') = Some (form_attendanceWindowMinutes d)"
  using assms unfolding formSchema_def Let_def
  by (auto split: option.splits)

lemma form_example_accepted:
  "formSchema no_numeric_strings form_example =
     Inr \<lparr>form_classId = Finite 3, form_subject = ''Maths'', form_dayOfWeek = Finite 1,
          form_startTimeMinutes = Finite 480, form_durationMinutes = Finite 60,
          form_location = Some ''Room 2'', form_attendanceWindowMinutes = Finite 30,
          form_isActive = True\<rparr>"
  by (simp add: formSchema_def form_example_def object_def Let_def z_coerce_number_def
      z_max_def z_min_def z_string_min_def z_string_def z_default_def z_optional_def
      z_boolean_def)

lemma form_long_lesson_rejected:
  "formSchema no_numeric_strings form_long_lesson = Inl [''durationMinutes'']"
  by (simp add: formSchema_def form_long_lesson_def object_def Let_def z_coerce_number_def
      z_max_def z_min_def z_string_min_def z_string_def z_default_def z_optional_def
      z_boolean_def)

text \<open>
  C8. The create-lesson schema accepts a submission only when the subject is a string of
  length at least 2 and the numbers read from it satisfy \<open>0 \<le> dayOfWeek \<le> 6\<close>,
  \<open>0 \<le> startTimeMinutes \<le> 1439\<close>, \<open>30 \<le> durationMinutes \<le> 240\<close> and
  \<open>5 \<le> attendanceWindowMinutes \<le> 60\<close>, the last being 30 when it is omitted. A
  submission that the schema rejects makes no POST; an accepted one makes the one POST
  to \<^verbatim>\<open>/api/lessons\<close> with the parsed data.
\<close>

theorem C8_form_schema:
  "(case formSchema s2n input of
      Inl issues \<Rightarrow> handleSubmit s2n input = []
    | Inr d \<Rightarrow>
        handleSubmit s2n input =
          [\<lparr>post_method = ''POST'', post_url = ''/api/lessons'', post_data = d\<rparr>]
      \<and> input ''subject'' = JString (form_subject d) \<and> 2 \<le> length (form_subject d)
      \<and> form_dayOfWeek d = ToNumber s2n (input ''dayOfWeek'')
      \<and> (\<exists>q. form_dayOfWeek d = Finite q \<and> 0 \<le> q \<and> q \<le> 6)
      \<and> form_startTimeMinutes d = ToNumber s2n (input ''startTimeMinutes'')
      \<and> (\<exists>q. form_startTimeMinutes d = Finite q \<and> 0 \<le> q \<and> q \<le> 1439)
      \<and> form_durationMinutes d = ToNumber s2n (input ''durationMinutes'')
      \<and> (\<exists>q. form_durationMinutes d = Finite q \<and> 30 \<le> q \<and> q \<le> 240)
      \<and> form_attendanceWindowMinutes d =
          (if input ''attendanceWindowMinutes'' = JUndefined then Finite 30
           else ToNumber s2n (input ''attendanceWindowMinutes''))
      \<and> (\<exists>q. form_attendanceWindowMinutes d = Finite q \<and> 5 \<le> q \<and> q \<le> 60))"
proof (cases "formSchema s2n input")
  case (Inl issues)
  then show ?thesis by (simp add: handleSubmit_def)
next
  case (Inr d)
  note f = formSchema_Inr [OF Inr]
  have w: "z_max 60 (z_min 5 (z_coerce_number s2n))
             (if input ''attendanceWindowMinutes'' = JUndefined then JNumber (Finite 30)
              else input ''attendanceWindowMinutes'') = Some (form_attendanceWindowMinutes d)"
    using f(5) by (simp add: z_default_def)
  have aw: "form_attendanceWindowMinutes d =
      (if input ''attendanceWindowMinutes'' = JUndefined then Finite 30
       else ToNumber s2n (input ''attendanceWindowMinutes''))"
    using bounded_number [OF w] by (simp split: if_splits)
  have hs: "handleSubmit s2n input =
      [\<lparr>post_method = ''POST'', post_url = ''/api/lessons'', post_data = d\<rparr>]"
    using Inr by (simp add: handleSubmit_def)
  have last_minute: "(24::rat) * 60 - 1 = 1439"
    by simp
  note st = bounded_number [OF f(3), unfolded last_minute]
  show ?thesis
    unfolding Inr sum.case
    using string_min [OF f(1)] bounded_number [OF f(2)] st
      bounded_number [OF f(4)] bounded_number [OF w] aw hs
    by blast
qed

section \<open>Properties of the date of a lesson\<close>

lemma TimeWithinDay_range: "0 \<le> TimeWithinDay t" "TimeWithinDay t < msPerDay"
  by (simp_all add: TimeWithinDay_def msPerDay_def)

text \<open>
  Setting the day of the month to today's plus \<open>k\<close> asks for the local time \<open>k\<close> days on,
  whatever the calendar.
\<close>

lemma setDate_getDate:
  "setDate fom tza now (getDate fom tza now + k) =
     UTC tza (MakeDate (Day (LocalTime tza now) + k) (TimeWithinDay (LocalTime tza now)))"
  by (simp add: setDate_def getDate_def DateFromTime_def MakeDay_in_month_of_def Let_def)

lemma calculateLessonDate_value:
  "calculateLessonDate fom tza now (Some l) =
     Some (UTC tza (MakeDate
       (localDay tza (UTC tza (MakeDate
          (localDay tza now + js_rem (dayOfWeek l - getDay tza now + 7) 7)
          (TimeWithinDay (LocalTime tza now))))) 0))"
  by (simp add: Let_def setDate_getDate setHours_def MakeTime_def localDay_def)

lemma getDay_range: "0 \<le> getDay tza t" "getDay tza t \<le> 6"
  by (simp_all add: getDay_def WeekDay_def)

lemma js_rem_pos: "0 \<le> a \<Longrightarrow> js_rem a 7 = a mod 7"
  by (cases "a = 0") (simp_all add: js_rem_def)

text \<open>
  C9, as amended. For a lesson with \<open>dayOfWeek\<close> from 0 to 6, let the target day be the
  day from today on with the lesson's day of week. When today's time of day, set on the
  target day, is read back by the zone as a time of that day, and local midnight of the
  target day exists in the zone (no change of the offset skips it), then
  \<open>calculateLessonDate\<close> returns that day at local midnight: a date on today or one of the
  next six days whose day of week is the lesson's, the only such day among those seven,
  and today when the lesson's day of week is today's.
\<close>

theorem C9_lesson_date:
  assumes "0 \<le> dayOfWeek l" and "dayOfWeek l \<le> 6"
    and "localDay tza (UTC tza (MakeDate (targetDay tza now l)
            (TimeWithinDay (LocalTime tza now)))) = targetDay tza now l"
    and "exists_locally tza (MakeDate (targetDay tza now l) 0)"
  shows "\<exists>d. calculateLessonDate firstOfMonth tza now (Some l) = Some d
           \<and> TimeWithinDay (LocalTime tza d) = 0
           \<and> getHours tza d = 0 \<and> getMinutes tza d = 0
           \<and> localDay tza now \<le> localDay tza d
           \<and> localDay tza d \<le> localDay tza now + 6
           \<and> getDay tza d = dayOfWeek l
           \<and> (\<forall>n. localDay tza now \<le> n \<and> n \<le> localDay tza now + 6
                    \<and> weekdayOfDay n = dayOfWeek l \<longrightarrow> n = localDay tza d)
           \<and> (dayOfWeek l = getDay tza now \<longrightarrow> localDay tza d = localDay tza now)"
proof -
  define today where "today = localDay tza now"
  define k where "k = (dayOfWeek l - getDay tza now + 7) mod 7"
  define d where "d = UTC tza (MakeDate (today + k) 0)"
  have target: "targetDay tza now l = today + k"
    by (simp add: targetDay_def today_def k_def)
  have cur: "getDay tza now = (today + 4) mod 7"
    by (simp add: getDay_def WeekDay_def today_def localDay_def)
  have "0 \<le> dayOfWeek l - getDay tza now + 7"
    using assms(1) getDay_range [of tza now] by simp
  then have "js_rem (dayOfWeek l - getDay tza now + 7) 7 = k"
    by (simp add: js_rem_pos k_def)
  then have val: "calculateLessonDate firstOfMonth tza now (Some l) = Some d"
    using assms(3) unfolding calculateLessonDate_value target d_def today_def by simp
  have loc: "LocalTime tza d = (today + k) * msPerDay"
    using assms(4) by (simp add: exists_locally_def target d_def MakeDate_def)
  have day: "localDay tza d = today + k"
    by (simp add: localDay_def loc Day_def msPerDay_def)
  have k: "0 \<le> k" "k \<le> 6"
    by (simp_all add: k_def)
  define X where "X = dayOfWeek l - getDay tza now + 7"
  have "today + k + 4 = (today + 4) + X mod 7"
    by (simp add: k_def X_def)
  then have "(today + k + 4) mod 7 = ((today + 4) + X mod 7) mod 7"
    by (rule arg_cong)
  also have "\<dots> = ((today + 4) + X) mod 7"
    by (rule mod_add_right_eq)
  also have "(today + 4) + X = dayOfWeek l + 7 * ((today + 4) div 7 + 1)"
    unfolding X_def cur using mult_div_mod_eq [of 7 "today + 4"] by (simp add: algebra_simps)
  also have "\<dots> mod 7 = dayOfWeek l mod 7"
    by (rule mod_mult_self2)
  also have "\<dots> = dayOfWeek l"
    using assms(1,2) by simp
  finally have wd: "(today + k + 4) mod 7 = dayOfWeek l" .
  have uniq: "n = today + k"
    if "today \<le> n" "n \<le> today + 6" "(n + 4) mod 7 = dayOfWeek l" for n
  proof -
    from that(3) wd have "(n + 4) mod 7 = (today + k + 4) mod 7"
      by simp
    then have "7 dvd (n + 4) - (today + k + 4)"
      by (simp only: mod_eq_dvd_iff)
    then have dv: "7 dvd n - today - k"
      by (simp add: algebra_simps)
    have "- 6 \<le> n - today - k" "n - today - k \<le> 6"
      using that(1,2) k by simp_all
    with dv have "n - today - k = 0"
      by presburger
    then show ?thesis by simp
  qed
  have same: "k = 0" if "dayOfWeek l = getDay tza now"
    using that by (simp add: k_def)
  have "TimeWithinDay (LocalTime tza d) = 0"
    by (simp add: loc TimeWithinDay_def)
  moreover have "getHours tza d = 0"
    by (simp add: getHours_def loc HourFromTime_def msPerDay_def msPerHour_def)
  moreover have "getMinutes tza d = 0"
    by (simp add: getMinutes_def loc MinFromTime_def msPerDay_def msPerMinute_def)
  moreover have "getDay tza d = dayOfWeek l"
    using wd day by (simp add: getDay_def WeekDay_def localDay_def)
  ultimately show ?thesis
    using val day k uniq same unfolding today_def [symmetric] weekdayOfDay_def by auto
qed

text \<open>
  On Saturday 5 September 2026 at 10:10 in Santiago a Monday lesson falls on Monday the
  7th at midnight, across the change of the offset. On Saturday 31 October 2026 at 10:10
  in New York a Monday lesson falls on Monday 2 November at midnight, in the next month
  and across the change of the offset, and a Saturday lesson falls on that Saturday.
\<close>

theorem C9_lesson_date_witness:
  "0 \<le> dayOfWeek lesson_monday \<and> dayOfWeek lesson_monday \<le> 6
   \<and> exists_locally santiago (MakeDate (targetDay santiago 1788617400000 lesson_monday) 0)
   \<and> calculateLessonDate firstOfMonth_2026 santiago 1788617400000 (Some lesson_monday)
       = Some 1788750000000
   \<and> getHours santiago 1788750000000 = 0
   \<and> getDay santiago 1788750000000 = dayOfWeek lesson_monday
   \<and> localDay santiago 1788750000000 = localDay santiago 1788617400000 + 2
   \<and> exists_locally new_york (MakeDate (targetDay new_york 1793455800000 lesson_monday) 0)
   \<and> calculateLessonDate firstOfMonth_2026 new_york 1793455800000 (Some lesson_monday)
       = Some 1793595600000
   \<and> getHours new_york 1793595600000 = 0
   \<and> getDay new_york 1793595600000 = dayOfWeek lesson_monday
   \<and> 0 \<le> dayOfWeek lesson_saturday \<and> dayOfWeek lesson_saturday \<le> 6
   \<and> dayOfWeek lesson_saturday = getDay new_york 1793455800000
   \<and> exists_locally new_york (MakeDate (targetDay new_york 1793455800000 lesson_saturday) 0)
   \<and> calculateLessonDate firstOfMonth_2026 new_york 1793455800000 (Some lesson_saturday)
       = Some 1793419200000
   \<and> localDay new_york 1793419200000 = localDay new_york 1793455800000"
proof -
  have monday: "0 \<le> dayOfWeek lesson_monday" "dayOfWeek lesson_monday \<le> 6"
    by (simp_all add: lesson_monday_def)
  have saturday: "0 \<le> dayOfWeek lesson_saturday" "dayOfWeek lesson_saturday \<le> 6"
    by (simp_all add: lesson_saturday_def)
  have s1: "localDay santiago (UTC santiago (MakeDate (targetDay santiago 1788617400000
              lesson_monday) (TimeWithinDay (LocalTime santiago 1788617400000))))
            = targetDay santiago 1788617400000 lesson_monday"
    by code_simp
  have s2: "exists_locally santiago
              (MakeDate (targetDay santiago 1788617400000 lesson_monday) 0)"
    by code_simp
  have s3:
    "calculateLessonDate firstOfMonth_2026 santiago 1788617400000 (Some lesson_monday)
       = Some 1788750000000"
    "getHours santiago 1788750000000 = 0"
    "getDay santiago 1788750000000 = dayOfWeek lesson_monday"
    "localDay santiago 1788750000000 = localDay santiago 1788617400000 + 2"
    by code_simp+
  have n1: "localDay new_york (UTC new_york (MakeDate (targetDay new_york 1793455800000
              lesson_monday) (TimeWithinDay (LocalTime new_york 1793455800000))))
            = targetDay new_york 1793455800000 lesson_monday"
    by code_simp
  have n2: "exists_locally new_york
              (MakeDate (targetDay new_york 1793455800000 lesson_monday) 0)"
    by code_simp
  have n3:
    "calculateLessonDate firstOfMonth_2026 new_york 1793455800000 (Some lesson_monday)
       = Some 1793595600000"
    "getHours new_york 1793595600000 = 0"
    "getDay new_york 1793595600000 = dayOfWeek lesson_monday"
    by code_simp+
  have t1: "localDay new_york (UTC new_york (MakeDate (targetDay new_york 1793455800000
              lesson_saturday) (TimeWithinDay (LocalTime new_york 1793455800000))))
            = targetDay new_york 1793455800000 lesson_saturday"
    by code_simp
  have t2: "exists_locally new_york
              (MakeDate (targetDay new_york 1793455800000 lesson_saturday) 0)"
    by code_simp
  have t3:
    "dayOfWeek lesson_saturday = getDay new_york 1793455800000"
    "calculateLessonDate firstOfMonth_2026 new_york 1793455800000 (Some lesson_saturday)
       = Some 1793419200000"
    "localDay new_york 1793419200000 = localDay new_york 1793455800000"
    by code_simp+
  show ?thesis
    using C9_lesson_date [OF monday s1 s2, of firstOfMonth_2026]
      C9_lesson_date [OF monday n1 n2, of firstOfMonth_2026]
      C9_lesson_date [OF saturday t1 t2, of firstOfMonth_2026]
      monday saturday s2 s3 n2 n3 t2 t3
    by blast
qed

text \<open>
  On Saturday 5 September 2026 at 10:10 in Santiago a Sunday lesson falls on Sunday the
  6th, whose local midnight the change of the offset skips: the date returned is 01:00
  of that Sunday and not midnight.
\<close>

theorem C9_skipped_midnight_counterexample:
  "0 \<le> dayOfWeek lesson_sunday \<and> dayOfWeek lesson_sunday \<le> 6
   \<and> calculateLessonDate firstOfMonth_2026 santiago 1788617400000 (Some lesson_sunday)
       = Some 1788667200000
   \<and> getDay santiago 1788667200000 = dayOfWeek lesson_sunday
   \<and> getHours santiago 1788667200000 = 1
   \<and> TimeWithinDay (LocalTime santiago 1788667200000) \<noteq> 0"
  by code_simp

end
